theory Spec2Isabelle
  imports Complex_Main "HOL-Library.Sublist"
begin

section \<open>JavaScript values\<close>

text \<open>
  A JavaScript string is a sequence of UTF-16 code units; \<open>length\<close>, \<open>split\<close>,
  \<open>trim\<close> and the regular expressions of the source (none has the \<open>u\<close> flag) all
  work on code units.  A code unit is modelled by its numeric value, so every
  JavaScript string is a \<open>jsstring\<close> (with entries below 65536), and a statement
  about all \<open>jsstring\<close>s covers all JavaScript strings.
\<close>

type_synonym jsstring = "nat list"

definition cu :: "char \<Rightarrow> nat" where
  "cu c = of_char c"

definition js :: "string \<Rightarrow> jsstring" where
  "js s = map cu s"

text \<open>
  ECMAScript \<open>WhiteSpace\<close> and \<open>LineTerminator\<close>: the code units that
  \<open>String.prototype.trim\<close> strips and that \<open>\s\<close> matches.
\<close>

definition isWhiteSpace :: "nat \<Rightarrow> bool" where
  "isWhiteSpace c \<longleftrightarrow>
     c = 9 \<or> c = 10 \<or> c = 11 \<or> c = 12 \<or> c = 13 \<or> c = 32 \<or> c = 160 \<or> c = 5760 \<or>
     (8192 \<le> c \<and> c \<le> 8202) \<or> c = 8232 \<or> c = 8233 \<or> c = 8239 \<or> c = 8287 \<or>
     c = 12288 \<or> c = 65279"

definition trim :: "jsstring \<Rightarrow> jsstring" where
  "trim s = rev (dropWhile isWhiteSpace (rev (dropWhile isWhiteSpace s)))"

text \<open>\<open>s.split(sep)\<close> for a one-character separator: never the empty array.\<close>

fun split_on :: "nat \<Rightarrow> jsstring \<Rightarrow> jsstring list" where
  "split_on sep [] = [[]]"
| "split_on sep (c # cs) =
     (if c = sep then [] # split_on sep cs
      else (case split_on sep cs of
              [] \<Rightarrow> [[c]]
            | p # ps \<Rightarrow> (c # p) # ps))"

text \<open>\<open>xs[i]\<close>: \<open>None\<close> is JavaScript's \<open>undefined\<close> of an index out of range.\<close>

definition at_index :: "'a list \<Rightarrow> nat \<Rightarrow> 'a option" where
  "at_index xs i = (if i < length xs then Some (xs ! i) else None)"

text \<open>\<open>data || []\<close> on an array that may be \<open>null\<close>.\<close>

definition or_empty :: "'a list option \<Rightarrow> 'a list" where
  "or_empty data = (case data of None \<Rightarrow> [] | Some d \<Rightarrow> d)"


text \<open>
  A JavaScript number: \<open>NaN\<close>, the two infinities, or a finite value.  Finite
  doubles are rationals, so they are embedded in \<open>real\<close>; \<open>Math.floor\<close>,
  \<open>Math.ceil\<close>, \<open>Math.max\<close>, \<open>Math.min\<close> and the comparisons are exact on
  doubles and are modelled exactly.  Negative zero is identified with zero (both
  are falsy and compare equal).
\<close>

datatype jsnum = NaN | NegInf | Fin real | PosInf

fun js_le :: "jsnum \<Rightarrow> jsnum \<Rightarrow> bool" where
  "js_le NaN _ = False"
| "js_le _ NaN = False"
| "js_le NegInf _ = True"
| "js_le _ PosInf = True"
| "js_le (Fin a) (Fin b) = (a \<le> b)"
| "js_le (Fin a) NegInf = False"
| "js_le PosInf (Fin b) = False"
| "js_le PosInf NegInf = False"

fun Math_max :: "jsnum \<Rightarrow> jsnum \<Rightarrow> jsnum" where
  "Math_max NaN _ = NaN"
| "Math_max _ NaN = NaN"
| "Math_max a b = (if js_le a b then b else a)"

fun Math_min :: "jsnum \<Rightarrow> jsnum \<Rightarrow> jsnum" where
  "Math_min NaN _ = NaN"
| "Math_min _ NaN = NaN"
| "Math_min a b = (if js_le a b then a else b)"

fun Math_floor :: "jsnum \<Rightarrow> jsnum" where
  "Math_floor (Fin a) = Fin (of_int \<lfloor>a\<rfloor>)"
| "Math_floor n = n"

fun Math_ceil :: "jsnum \<Rightarrow> jsnum" where
  "Math_ceil (Fin a) = Fin (of_int \<lceil>a\<rceil>)"
| "Math_ceil n = n"

text \<open>\<open>x || d\<close> on an optional number: \<open>undefined\<close>, \<open>NaN\<close> and zero are falsy.\<close>

fun or_default :: "jsnum option \<Rightarrow> jsnum \<Rightarrow> jsnum" where
  "or_default None d = d"
| "or_default (Some NaN) d = d"
| "or_default (Some (Fin a)) d = (if a = 0 then d else Fin a)"
| "or_default (Some n) d = n"

text \<open>
  A loosely typed value (\<open>any\<close>).  An object is the list of its own properties;
  reading a property that is absent gives \<open>undefined\<close>.
\<close>

datatype jsval =
    JUndefined
  | JNull
  | JBool bool
  | JNum jsnum
  | JStr jsstring
  | JObj "(jsstring \<times> jsval) list"

fun get_prop :: "jsval \<Rightarrow> string \<Rightarrow> jsval" where
  "get_prop (JObj fs) k = (case map_of fs (js k) of None \<Rightarrow> JUndefined | Some v \<Rightarrow> v)"
| "get_prop _ k = JUndefined"

text \<open>What a \<open>throw\<close> carries.\<close>

datatype js_error =
    Error jsstring
  | TypeError
  | RangeError
  | InvalidCharacterError

section \<open>Validation utilities\<close>

record ValidationResult =
  isValid :: bool
  errors :: "jsstring list"

definition USER_NAME_MAX_LENGTH :: nat where
  "USER_NAME_MAX_LENGTH = 50"

definition USER_NAME_MIN_LENGTH :: nat where
  "USER_NAME_MIN_LENGTH = 1"

definition IMAGE_MAX_SIZE_BYTES :: nat where
  "IMAGE_MAX_SIZE_BYTES = 10 * 1024 * 1024"


text \<open>\<open>/^data:image\/(png|jpeg);base64,/\<close>\<close>

definition BASE64_IMAGE_PREFIX_PATTERN :: "jsstring \<Rightarrow> bool" where
  "BASE64_IMAGE_PREFIX_PATTERN s \<longleftrightarrow>
     prefix (js ''data:image/png;base64,'') s \<or> prefix (js ''data:image/jpeg;base64,'') s"

definition isAlnum :: "nat \<Rightarrow> bool" where
  "isAlnum c \<longleftrightarrow>
     (cu CHR ''a'' \<le> c \<and> c \<le> cu CHR ''z'') \<or>
     (cu CHR ''A'' \<le> c \<and> c \<le> cu CHR ''Z'') \<or>
     (cu CHR ''0'' \<le> c \<and> c \<le> cu CHR ''9'')"

text \<open>The character class \<open>[a-zA-Z0-9\s\-_'.]\<close>\<close>

definition isNameChar :: "nat \<Rightarrow> bool" where
  "isNameChar c \<longleftrightarrow>
     isAlnum c \<or> isWhiteSpace c \<or> c = cu CHR ''-'' \<or> c = cu CHR ''_'' \<or>
     c = cu CHR 0x27 \<or> c = cu CHR ''.''"

text \<open>\<open>/^[a-zA-Z0-9\s\-_'.]+$/\<close>\<close>

definition validNamePattern :: "jsstring \<Rightarrow> bool" where
  "validNamePattern s \<longleftrightarrow> s \<noteq> [] \<and> list_all isNameChar s"

text \<open>
  \<open>validateUserName.validate\<close>.  The guard \<open>!userName || typeof userName !== 'string'\<close>
  lets only a non-empty string through.
\<close>

definition validateUserName :: "jsval \<Rightarrow> ValidationResult" where
  "validateUserName userName =
     (case userName of
        JStr s \<Rightarrow>
          if s = [] then \<lparr>isValid = False, errors = [js ''User name is required'']\<rparr>
          else
            let trimmedName = trim s;
                errors1 = (if length trimmedName < USER_NAME_MIN_LENGTH
                           then [js ''User name cannot be empty''] else []);
                errors2 = errors1 @
                          (if length trimmedName > USER_NAME_MAX_LENGTH
                           then [js ''User name cannot exceed 50 characters''] else []);
                errors3 = errors2 @
                          (if \<not> validNamePattern trimmedName
                           then [js ''User name contains invalid characters. Only letters, numbers, spaces, hyphens, underscores, apostrophes, and periods are allowed'']
                           else [])
            in \<lparr>isValid = (length errors3 = 0), errors = errors3\<rparr>
      | _ \<Rightarrow> \<lparr>isValid = False, errors = [js ''User name is required'']\<rparr>)"

text \<open>The character class \<open>[A-Za-z0-9+/]\<close>\<close>

definition isBase64Char :: "nat \<Rightarrow> bool" where
  "isBase64Char c \<longleftrightarrow> isAlnum c \<or> c = cu CHR ''+'' \<or> c = cu CHR ''/''"

text \<open>
  \<open>/^[A-Za-z0-9+/]*={0,2}$/\<close>: as \<open>=\<close> is outside the class, the star takes
  exactly the longest prefix inside the class and at most two \<open>=\<close> may remain.
\<close>

definition base64Pattern :: "jsstring \<Rightarrow> bool" where
  "base64Pattern s \<longleftrightarrow>
     (let rest = dropWhile isBase64Char s
      in rest = [] \<or> rest = js ''='' \<or> rest = js ''=='')"

text \<open>The size estimate of \<open>validateImageData\<close>: \<open>(base64Data.length * 3) / 4\<close>, not rounded.\<close>

definition estimatedSize :: "jsstring \<Rightarrow> real" where
  "estimatedSize base64Data = (real (length base64Data) * 3) / 4"

text \<open>
  \<open>validateImageData.validate\<close>.  Nothing inside its \<open>try\<close> block can throw on a
  string, so the \<open>catch\<close> branch has no counterpart here.
\<close>

definition validateImageData :: "jsval \<Rightarrow> ValidationResult" where
  "validateImageData imageData =
     (case imageData of
        JStr s \<Rightarrow>
          if s = [] then \<lparr>isValid = False, errors = [js ''Image data is required'']\<rparr>
          else if \<not> BASE64_IMAGE_PREFIX_PATTERN s
          then \<lparr>isValid = False,
                errors = [js ''Image data must be a valid PNG or JPEG in base64 format'']\<rparr>
          else
            (case at_index (split_on (cu CHR '','') s) 1 of
               None \<Rightarrow> \<lparr>isValid = False, errors = [js ''Invalid base64 image format'']\<rparr>
             | Some base64Data \<Rightarrow>
                 if base64Data = []
                 then \<lparr>isValid = False, errors = [js ''Invalid base64 image format'']\<rparr>
                 else if \<not> base64Pattern base64Data
                 then \<lparr>isValid = False, errors = [js ''Invalid base64 encoding'']\<rparr>
                 else
                   let errors1 = (if estimatedSize base64Data > real IMAGE_MAX_SIZE_BYTES
                                  then [js ''Image size exceeds maximum limit of 10MB'']
                                  else [])
                   in \<lparr>isValid = (length errors1 = 0), errors = errors1\<rparr>)
      | _ \<Rightarrow> \<lparr>isValid = False, errors = [js ''Image data is required'']\<rparr>)"

text \<open>
  \<open>validateCreatePixelCardRequest\<close>.  Only an object passes
  \<open>!request || typeof request !== 'object'\<close>.
\<close>

definition validateCreatePixelCardRequest :: "jsval \<Rightarrow> ValidationResult" where
  "validateCreatePixelCardRequest request =
     (case request of
        JObj fs \<Rightarrow>
          let userNameValidation = validateUserName (get_prop request ''userName'');
              errors1 = (if \<not> isValid userNameValidation
                         then errors userNameValidation else []);
              imageDataValidation = validateImageData (get_prop request ''imageData'');
              errors2 = errors1 @
                        (if \<not> isValid imageDataValidation
                         then errors imageDataValidation else [])
          in \<lparr>isValid = (length errors2 = 0), errors = errors2\<rparr>
      | _ \<Rightarrow> \<lparr>isValid = False, errors = [js ''Request data is required'']\<rparr>)"


section \<open>Type validation and transformation utilities\<close>

text \<open>
  Arithmetic on numbers.  A finite result is the exact real result: the rounding
  and the overflow of a double operation are not modelled, so these agree with
  JavaScript where the exact result is a double (as on the small integers of
  pagination).
\<close>

fun js_neg :: "jsnum \<Rightarrow> jsnum" where
  "js_neg NaN = NaN"
| "js_neg NegInf = PosInf"
| "js_neg PosInf = NegInf"
| "js_neg (Fin a) = Fin (- a)"

fun js_add :: "jsnum \<Rightarrow> jsnum \<Rightarrow> jsnum" where
  "js_add NaN _ = NaN"
| "js_add _ NaN = NaN"
| "js_add (Fin a) (Fin b) = Fin (a + b)"
| "js_add PosInf NegInf = NaN"
| "js_add NegInf PosInf = NaN"
| "js_add PosInf _ = PosInf"
| "js_add _ PosInf = PosInf"
| "js_add NegInf _ = NegInf"
| "js_add _ NegInf = NegInf"

definition js_sub :: "jsnum \<Rightarrow> jsnum \<Rightarrow> jsnum" where
  "js_sub a b = js_add a (js_neg b)"

definition js_sign :: "jsnum \<Rightarrow> int" where
  "js_sign n =
     (case n of
        NaN \<Rightarrow> 0
      | NegInf \<Rightarrow> - 1
      | PosInf \<Rightarrow> 1
      | Fin a \<Rightarrow> (if a < 0 then - 1 else if a = 0 then 0 else 1))"

definition signed_inf :: "int \<Rightarrow> jsnum" where
  "signed_inf s = (if s = 0 then NaN else if 0 < s then PosInf else NegInf)"

fun js_mul :: "jsnum \<Rightarrow> jsnum \<Rightarrow> jsnum" where
  "js_mul NaN _ = NaN"
| "js_mul _ NaN = NaN"
| "js_mul (Fin a) (Fin b) = Fin (a * b)"
| "js_mul a b = signed_inf (js_sign a * js_sign b)"

fun js_div :: "jsnum \<Rightarrow> jsnum \<Rightarrow> jsnum" where
  "js_div NaN _ = NaN"
| "js_div _ NaN = NaN"
| "js_div (Fin a) (Fin b) = (if b = 0 then signed_inf (js_sign (Fin a)) else Fin (a / b))"
| "js_div (Fin a) _ = Fin 0"
| "js_div a (Fin b) = signed_inf (js_sign a * (if b < 0 then - 1 else 1))"
| "js_div _ _ = NaN"

text \<open>
  A \<open>Date\<close> holds a time value (milliseconds since the epoch) or is invalid.
  \<open>new Date(s)\<close> on a string and \<open>toISOString\<close> on a valid time value are the
  runtime's; they are parameters of the functions that use them (\<open>parse\<close>,
  \<open>fmt\<close>).  \<open>toISOString\<close> on an invalid date throws a \<open>RangeError\<close>.
\<close>

datatype js_date = Date int | Invalid_Date

definition toISOString :: "(int \<Rightarrow> jsstring) \<Rightarrow> js_date \<Rightarrow> js_error + jsstring" where
  "toISOString fmt d = (case d of Date t \<Rightarrow> Inr (fmt t) | Invalid_Date \<Rightarrow> Inl RangeError)"

text \<open>The row of table \<open>pixel_cards\<close>, as \<open>Database['public']['Tables']['pixel_cards']['Row']\<close> types it.\<close>

record PixelCardRow =
  row_id :: jsstring
  user_name :: jsstring
  image_path :: jsstring
  image_url :: jsstring
  created_at :: jsstring
  updated_at :: jsstring
  file_size :: jsnum
  mime_type :: jsstring

record PixelCard =
  card_id :: jsstring
  userName :: jsstring
  imagePath :: jsstring
  imageUrl :: jsstring
  createdAt :: js_date
  updatedAt :: js_date
  fileSize :: jsnum
  mimeType :: jsstring

record PixelCardResponse =
  resp_id :: jsstring
  resp_userName :: jsstring
  resp_imageUrl :: jsstring
  resp_createdAt :: jsstring
  resp_fileSize :: jsnum

text \<open>
  \<open>validatePixelCardRow\<close> on a row of the declared type: the \<open>typeof\<close> conjuncts
  hold by the type of the record, the test of the MIME type remains.
\<close>

definition validatePixelCardRow :: "PixelCardRow \<Rightarrow> bool" where
  "validatePixelCardRow row \<longleftrightarrow>
     mime_type row = js ''image/png'' \<or> mime_type row = js ''image/jpeg''"

definition transformRowToPixelCard :: "(jsstring \<Rightarrow> js_date) \<Rightarrow> PixelCardRow \<Rightarrow> js_error + PixelCard" where
  "transformRowToPixelCard parse row =
     (if \<not> validatePixelCardRow row then Inl (Error (js ''Invalid pixel card row data''))
      else Inr \<lparr>card_id = row_id row,
                userName = user_name row,
                imagePath = image_path row,
                imageUrl = image_url row,
                createdAt = parse (created_at row),
                updatedAt = parse (updated_at row),
                fileSize = file_size row,
                mimeType = mime_type row\<rparr>)"

definition transformPixelCardToResponse :: "(int \<Rightarrow> jsstring) \<Rightarrow> PixelCard \<Rightarrow> js_error + PixelCardResponse" where
  "transformPixelCardToResponse fmt pixelCard =
     (case toISOString fmt (createdAt pixelCard) of
        Inl e \<Rightarrow> Inl e
      | Inr s \<Rightarrow> Inr \<lparr>resp_id = card_id pixelCard,
                      resp_userName = userName pixelCard,
                      resp_imageUrl = imageUrl pixelCard,
                      resp_createdAt = s,
                      resp_fileSize = fileSize pixelCard\<rparr>)"

text \<open>
  Modelled from the spec: \<open>entityToRow\<close>, the mapping of the in-memory entity
  back to the persisted-row shape, is not in the source (section 4.2 of the
  spec names the mapping between the two shapes as bidirectional, section 8
  its round trip).  It copies the six scalar fields under their row names and
  renders each timestamp as an ISO-8601 string, the way
  \<open>transformPixelCardToResponse\<close> renders \<open>createdAt\<close>; on an invalid date
  that rendering throws.
\<close>

definition entityToRow :: "(int \<Rightarrow> jsstring) \<Rightarrow> PixelCard \<Rightarrow> js_error + PixelCardRow" where
  "entityToRow fmt pixelCard =
     (case toISOString fmt (createdAt pixelCard) of
        Inl e \<Rightarrow> Inl e
      | Inr created \<Rightarrow>
          (case toISOString fmt (updatedAt pixelCard) of
             Inl e \<Rightarrow> Inl e
           | Inr updated \<Rightarrow>
               Inr \<lparr>row_id = card_id pixelCard,
                    user_name = userName pixelCard,
                    image_path = imagePath pixelCard,
                    image_url = imageUrl pixelCard,
                    created_at = created,
                    updated_at = updated,
                    file_size = fileSize pixelCard,
                    mime_type = mimeType pixelCard\<rparr>))"

record NormalizedPagination =
  norm_page :: jsnum
  norm_limit :: jsnum
  norm_offset :: jsnum

definition validateAndNormalizePagination :: "jsnum option \<Rightarrow> jsnum option \<Rightarrow> NormalizedPagination" where
  "validateAndNormalizePagination page limit =
     (let safePage = Math_max (Fin 1) (Math_floor (or_default page (Fin 1)));
          safeLimit = Math_min (Fin 100) (Math_max (Fin 1) (Math_floor (or_default limit (Fin 20))))
      in \<lparr>norm_page = safePage,
          norm_limit = safeLimit,
          norm_offset = js_mul (js_sub safePage (Fin 1)) safeLimit\<rparr>)"

text \<open>
  \<open>calculateBase64FileSize\<close>.  The product \<open>length * 3\<close> is far below \<open>2^53\<close> for
  every string an engine can hold and the division by four is exact in binary,
  so the double arithmetic is the integer arithmetic written here.  Reading
  \<open>.length\<close> of an \<open>undefined\<close> second piece would be a \<open>TypeError\<close>.
\<close>

definition calculateBase64FileSize :: "jsstring \<Rightarrow> js_error + int" where
  "calculateBase64FileSize base64Data =
     (case (if cu CHR '','' \<in> set base64Data
            then at_index (split_on (cu CHR '','') base64Data) 1
            else Some base64Data) of
        None \<Rightarrow> Inl TypeError
      | Some base64Content \<Rightarrow>
          let padding = length (filter (\<lambda>c. c = cu CHR ''='') base64Content)
          in Inr (\<lfloor>real (length base64Content * 3) / 4\<rfloor> - int padding))"

section \<open>The repository (read path)\<close>

text \<open>
  The backend is an external collaborator.  A read is a query built on table
  \<open>pixel_cards\<close> and answered by the backend with \<open>data\<close>, \<open>count\<close> and
  \<open>error\<close>; each operation returns, next to its result (\<open>Inl\<close> what it throws),
  the queries it has issued, in order.
\<close>

datatype db_query =
    CountQuery
    \<comment> \<open>\<open>select('*', { count: 'exact', head: true })\<close>\<close>
  | RangeQuery jsstring bool jsnum jsnum
    \<comment> \<open>\<open>select('*').order(column, { ascending }).range(from, to)\<close>\<close>
  | SingleQuery jsstring jsstring jsstring
    \<comment> \<open>\<open>select(columns).eq(column, value).single()\<close>\<close>

record pg_error =
  code :: jsstring
  message :: jsstring

record count_response =
  count :: "nat option"
  count_error :: "pg_error option"

record rows_response =
  rows_data :: "PixelCardRow list option"
  rows_error :: "pg_error option"

record 'a single_response =
  single_data :: "'a option"
  single_error :: "pg_error option"

record backend =
  select_count :: "db_query \<Rightarrow> count_response"
  select_rows :: "db_query \<Rightarrow> rows_response"
  select_single :: "db_query \<Rightarrow> PixelCardRow single_response"
  select_single_id :: "db_query \<Rightarrow> jsstring single_response"

record PaginationParams =
  params_page :: "jsnum option"
  params_limit :: "jsnum option"

record Pagination =
  page :: jsnum
  limit :: jsnum
  total :: jsnum
  totalPages :: jsnum

record GalleryResponse =
  pixelCards :: "PixelCardResponse list"
  pagination :: Pagination

definition DEFAULT_PAGE_SIZE :: jsnum where
  "DEFAULT_PAGE_SIZE = Fin 12"

definition MAX_PAGE_SIZE :: jsnum where
  "MAX_PAGE_SIZE = Fin 50"

text \<open>
  \<open>error instanceof Error ? error : new Error(fallback)\<close>: everything a
  \<open>js_error\<close> stands for is an instance of \<open>Error\<close>.
\<close>

definition rethrow :: "string \<Rightarrow> js_error \<Rightarrow> js_error" where
  "rethrow fallback e = e"

definition isHexDigit :: "nat \<Rightarrow> bool" where
  "isHexDigit c \<longleftrightarrow>
     (cu CHR ''0'' \<le> c \<and> c \<le> cu CHR ''9'') \<or>
     (cu CHR ''a'' \<le> c \<and> c \<le> cu CHR ''f'') \<or>
     (cu CHR ''A'' \<le> c \<and> c \<le> cu CHR ''F'')"

text \<open>
  \<open>/^[0-9a-f]{8}-[0-9a-f]{4}-[1-5][0-9a-f]{3}-[89ab][0-9a-f]{3}-[0-9a-f]{12}$/i\<close>:
  every match has 36 code units.
\<close>

definition isValidUUID :: "jsstring \<Rightarrow> bool" where
  "isValidUUID uuid \<longleftrightarrow>
     length uuid = 36 \<and>
     list_all isHexDigit (take 8 uuid) \<and>
     uuid ! 8 = cu CHR ''-'' \<and>
     list_all isHexDigit (take 4 (drop 9 uuid)) \<and>
     uuid ! 13 = cu CHR ''-'' \<and>
     (cu CHR ''1'' \<le> uuid ! 14 \<and> uuid ! 14 \<le> cu CHR ''5'') \<and>
     list_all isHexDigit (take 3 (drop 15 uuid)) \<and>
     uuid ! 18 = cu CHR ''-'' \<and>
     uuid ! 19 \<in> set (js ''89abAB'') \<and>
     list_all isHexDigit (take 3 (drop 20 uuid)) \<and>
     uuid ! 23 = cu CHR ''-'' \<and>
     list_all isHexDigit (take 12 (drop 24 uuid))"

text \<open>The private transformations of the repository class (they do not validate).\<close>

definition PixelCardRepository_transformRowToPixelCard ::
    "(jsstring \<Rightarrow> js_date) \<Rightarrow> PixelCardRow \<Rightarrow> PixelCard" where
  "PixelCardRepository_transformRowToPixelCard parse row =
     \<lparr>card_id = row_id row,
      userName = user_name row,
      imagePath = image_path row,
      imageUrl = image_url row,
      createdAt = parse (created_at row),
      updatedAt = parse (updated_at row),
      fileSize = file_size row,
      mimeType = mime_type row\<rparr>"

definition PixelCardRepository_transformRowToResponse :: "PixelCardRow \<Rightarrow> PixelCardResponse" where
  "PixelCardRepository_transformRowToResponse row =
     \<lparr>resp_id = row_id row,
      resp_userName = user_name row,
      resp_imageUrl = image_url row,
      resp_createdAt = created_at row,
      resp_fileSize = file_size row\<rparr>"

text \<open>The \<open>try\<close> block of \<open>getAllPixelCards\<close>.\<close>

definition getAllPixelCards_try ::
    "backend \<Rightarrow> PaginationParams \<Rightarrow> (js_error + GalleryResponse) \<times> db_query list" where
  "getAllPixelCards_try be params =
     (let page = Math_max (Fin 1) (or_default (params_page params) (Fin 1));
          limit = Math_min (Math_max (Fin 1) (or_default (params_limit params) DEFAULT_PAGE_SIZE))
                           MAX_PAGE_SIZE;
          offset = js_mul (js_sub page (Fin 1)) limit;
          q1 = CountQuery;
          r1 = select_count be q1
      in case count_error r1 of
           Some countError \<Rightarrow>
             (Inl (Error (js ''Failed to get total count: '' @ message countError)), [q1])
         | None \<Rightarrow>
             let total = (case count r1 of None \<Rightarrow> 0 | Some n \<Rightarrow> n);
                 totalPages = Math_ceil (js_div (Fin (real total)) limit)
             in if total = 0
                then (Inr \<lparr>pixelCards = [],
                           pagination = \<lparr>page = page, limit = limit,
                                         total = Fin 0, totalPages = Fin 0\<rparr>\<rparr>, [q1])
                else
                  let q2 = RangeQuery (js ''created_at'') False offset
                                      (js_sub (js_add offset limit) (Fin 1));
                      r2 = select_rows be q2
                  in (case rows_error r2 of
                        Some error \<Rightarrow>
                          (Inl (Error (js ''Failed to fetch pixel cards: '' @ message error)),
                           [q1, q2])
                      | None \<Rightarrow>
                          (Inr \<lparr>pixelCards =
                                  map PixelCardRepository_transformRowToResponse
                                      (or_empty (rows_data r2)),
                                pagination = \<lparr>page = page, limit = limit,
                                              total = Fin (real total),
                                              totalPages = totalPages\<rparr>\<rparr>,
                           [q1, q2])))"

definition getAllPixelCards ::
    "backend \<Rightarrow> PaginationParams \<Rightarrow> (js_error + GalleryResponse) \<times> db_query list" where
  "getAllPixelCards be params =
     (case getAllPixelCards_try be params of
        (Inl error, qs) \<Rightarrow> (Inl (rethrow ''Failed to fetch pixel cards'' error), qs)
      | (Inr r, qs) \<Rightarrow> (Inr r, qs))"

text \<open>The \<open>try\<close> block of \<open>getPixelCardById\<close>; \<open>None\<close> is the \<open>null\<close> it returns.\<close>

definition getPixelCardById_try ::
    "(jsstring \<Rightarrow> js_date) \<Rightarrow> backend \<Rightarrow> jsstring \<Rightarrow> (js_error + PixelCard option) \<times> db_query list" where
  "getPixelCardById_try parse be ident =
     (if \<not> isValidUUID ident then (Inl (Error (js ''Invalid pixel card ID format'')), [])
      else
        let q = SingleQuery (js ''*'') (js ''id'') ident;
            r = select_single be q
        in case single_error r of
             Some error \<Rightarrow>
               if code error = js ''PGRST116'' then (Inr None, [q])
               else (Inl (Error (js ''Failed to fetch pixel card: '' @ message error)), [q])
           | None \<Rightarrow>
               (case single_data r of
                  None \<Rightarrow> (Inr None, [q])
                | Some data \<Rightarrow>
                    (Inr (Some (PixelCardRepository_transformRowToPixelCard parse data)), [q])))"

definition getPixelCardById ::
    "(jsstring \<Rightarrow> js_date) \<Rightarrow> backend \<Rightarrow> jsstring \<Rightarrow> (js_error + PixelCard option) \<times> db_query list" where
  "getPixelCardById parse be ident =
     (case getPixelCardById_try parse be ident of
        (Inl error, qs) \<Rightarrow> (Inl (rethrow ''Failed to fetch pixel card'' error), qs)
      | (Inr r, qs) \<Rightarrow> (Inr r, qs))"

text \<open>The \<open>try\<close> block of \<open>pixelCardExists\<close>; \<open>!!data\<close> is true of every row object.\<close>

definition pixelCardExists_try ::
    "backend \<Rightarrow> jsstring \<Rightarrow> (js_error + bool) \<times> db_query list" where
  "pixelCardExists_try be ident =
     (if \<not> isValidUUID ident then (Inr False, [])
      else
        let q = SingleQuery (js ''id'') (js ''id'') ident;
            r = select_single_id be q
        in case single_error r of
             Some error \<Rightarrow>
               if code error = js ''PGRST116'' then (Inr False, [q])
               else (Inl (Error (js ''Failed to check pixel card existence: '' @ message error)),
                     [q])
           | None \<Rightarrow> (Inr (single_data r \<noteq> None), [q]))"

text \<open>Its \<open>catch\<close> block logs the error and returns \<open>false\<close>.\<close>

definition pixelCardExists ::
    "backend \<Rightarrow> jsstring \<Rightarrow> (js_error + bool) \<times> db_query list" where
  "pixelCardExists be ident =
     (case pixelCardExists_try be ident of
        (Inl error, qs) \<Rightarrow> (Inr False, qs)
      | (Inr b, qs) \<Rightarrow> (Inr b, qs))"

section \<open>The upload service (write path)\<close>

text \<open>
  \<open>atob\<close> is the runtime's forgiving-base64 decoder: it strips ASCII whitespace,
  drops one or two trailing \<open>=\<close> when the length is a multiple of four, fails
  (\<open>None\<close>: an \<open>InvalidCharacterError\<close>) when the remaining length is 1 modulo 4
  or a character is outside the alphabet, and otherwise turns every four
  sextets into three bytes, discarding the bits left over at the end.
  \<open>Uint8Array.from(atob(s), c => c.charCodeAt(0))\<close> is the list of these bytes.
\<close>

definition isAsciiWhitespace :: "nat \<Rightarrow> bool" where
  "isAsciiWhitespace c \<longleftrightarrow> c = 9 \<or> c = 10 \<or> c = 12 \<or> c = 13 \<or> c = 32"

definition sextet :: "nat \<Rightarrow> nat" where
  "sextet c =
     (if cu CHR ''A'' \<le> c \<and> c \<le> cu CHR ''Z'' then c - cu CHR ''A''
      else if cu CHR ''a'' \<le> c \<and> c \<le> cu CHR ''z'' then c - cu CHR ''a'' + 26
      else if cu CHR ''0'' \<le> c \<and> c \<le> cu CHR ''9'' then c - cu CHR ''0'' + 52
      else if c = cu CHR ''+'' then 62
      else 63)"

fun decode_sextets :: "nat list \<Rightarrow> nat list" where
  "decode_sextets (a # b # c # d # rest) =
     [a * 4 + b div 16, (b mod 16) * 16 + c div 4, (c mod 4) * 64 + d] @ decode_sextets rest"
| "decode_sextets [a, b, c] = [a * 4 + b div 16, (b mod 16) * 16 + c div 4]"
| "decode_sextets [a, b] = [a * 4 + b div 16]"
| "decode_sextets _ = []"

definition strip_padding :: "jsstring \<Rightarrow> jsstring" where
  "strip_padding d =
     (if length d mod 4 = 0
      then (if suffix (js ''=='') d then take (length d - 2) d
            else if suffix (js ''='') d then take (length d - 1) d
            else d)
      else d)"

definition atob :: "jsstring \<Rightarrow> nat list option" where
  "atob s =
     (let d = strip_padding (filter (\<lambda>c. \<not> isAsciiWhitespace c) s)
      in if length d mod 4 = 1 then None
         else if \<not> list_all isBase64Char d then None
         else Some (decode_sextets (map sextet d)))"




















section \<open>Example data\<close>

text \<open>Concrete rows, runtimes and backends, on which the properties below are run.\<close>

definition example_uuid :: jsstring where
  "example_uuid = js ''123e4567-e89b-42d3-a456-426614174000''"

definition example_parse :: "jsstring \<Rightarrow> js_date" where
  "example_parse s =
     (if s = js ''2024-01-01T00:00:00+00:00'' \<or> s = js ''2024-01-01T00:00:00.000Z''
      then Date 1704067200000
      else if s = js ''2024-01-02T00:00:00+00:00'' \<or> s = js ''2024-01-02T00:00:00.000Z''
      then Date 1704153600000
      else Invalid_Date)"

definition example_toISO :: "int \<Rightarrow> jsstring" where
  "example_toISO t =
     (if t = 1704153600000 then js ''2024-01-02T00:00:00.000Z''
      else js ''2024-01-01T00:00:00.000Z'')"

definition example_row :: PixelCardRow where
  "example_row =
     \<lparr>row_id = example_uuid,
      user_name = js ''Ada'',
      image_path = js ''2024/01/a.png'',
      image_url = js ''https://cdn.example/2024/01/a.png'',
      created_at = js ''2024-01-01T00:00:00+00:00'',
      updated_at = js ''2024-01-01T00:00:00+00:00'',
      file_size = Fin 5,
      mime_type = js ''image/png''\<rparr>"

definition example_row_newer :: PixelCardRow where
  "example_row_newer =
     example_row\<lparr>user_name := js ''Bob'', created_at := js ''2024-01-02T00:00:00+00:00''\<rparr>"

text \<open>A backend that holds the given rows, newest first, and answers every read.\<close>

definition backend_with :: "PixelCardRow list \<Rightarrow> backend" where
  "backend_with rows =
     \<lparr>select_count = (\<lambda>q. \<lparr>count = Some (length rows), count_error = None\<rparr>),
      select_rows = (\<lambda>q. \<lparr>rows_data = Some rows, rows_error = None\<rparr>),
      select_single = (\<lambda>q. case rows of
                                [] \<Rightarrow> \<lparr>single_data = None,
                                        single_error = Some \<lparr>code = js ''PGRST116'',
                                                             message = js ''no rows''\<rparr>\<rparr>
                              | r # _ \<Rightarrow> \<lparr>single_data = Some r, single_error = None\<rparr>),
      select_single_id = (\<lambda>q. case rows of
                                [] \<Rightarrow> \<lparr>single_data = None,
                                        single_error = Some \<lparr>code = js ''PGRST116'',
                                                             message = js ''no rows''\<rparr>\<rparr>
                              | r # _ \<Rightarrow> \<lparr>single_data = Some (row_id r), single_error = None\<rparr>)\<rparr>"

text \<open>A backend whose every read fails with an error that is not the not-found code.\<close>

definition backend_unavailable :: backend where
  "backend_unavailable =
     \<lparr>select_count = (\<lambda>q. \<lparr>count = None,
                               count_error = Some \<lparr>code = js ''503'', message = js ''unavailable''\<rparr>\<rparr>),
      select_rows = (\<lambda>q. \<lparr>rows_data = None,
                              rows_error = Some \<lparr>code = js ''503'', message = js ''unavailable''\<rparr>\<rparr>),
      select_single = (\<lambda>q. \<lparr>single_data = None,
                                single_error = Some \<lparr>code = js ''503'', message = js ''unavailable''\<rparr>\<rparr>),
      select_single_id = (\<lambda>q. \<lparr>single_data = None,
                                   single_error = Some \<lparr>code = js ''503'', message = js ''unavailable''\<rparr>\<rparr>)\<rparr>"

text \<open>
  A payload of 13981016 characters that decodes to exactly \<open>10 * 1024 * 1024\<close>
  bytes, and one of 15379116 characters that decodes to \<open>11 * 1024 * 1024\<close>.
\<close>

definition ceiling_sized_payload :: jsstring where
  "ceiling_sized_payload = replicate 13981014 (cu CHR ''A'') @ js ''==''"

definition ceiling_sized_uri :: jsstring where
  "ceiling_sized_uri = js ''data:image/png;base64,'' @ ceiling_sized_payload"





section \<open>Properties of the validation layer\<close>

lemmas char_evals = js_def cu_def isAlnum_def isNameChar_def isWhiteSpace_def isBase64Char_def
  isHexDigit_def

lemma validateUserName_valid_iff_no_errors:
  "isValid (validateUserName v) \<longleftrightarrow> errors (validateUserName v) = []"
  by (cases v) (simp_all add: validateUserName_def Let_def)

lemma validateImageData_valid_iff_no_errors:
  "isValid (validateImageData v) \<longleftrightarrow> errors (validateImageData v) = []"
  by (cases v) (simp_all add: validateImageData_def Let_def split: option.split)

lemma trim_Nil: "trim [] = []"
  by (simp add: trim_def)

text \<open>
  C2, as stated: a name of length 0 or above 50, or with a character outside the
  class, is rejected with a non-empty error list, and a name of length 1 to 50
  made of characters of the class is accepted.  The code measures the name after
  \<open>trim\<close>, so the statement fails in both directions: the one-character name
  \<open>" "\<close> is made of an allowed character and is rejected, and a name of 51
  characters, 49 letters followed by two spaces, is accepted.
\<close>

theorem validateUserName_untrimmed_counterexample:
  "length (js '' '') = 1 \<and> list_all isNameChar (js '' '') \<and>
   \<not> isValid (validateUserName (JStr (js '' ''))) \<and>
   length (js ''aaaaaaaaaaaaaaaaaaaaaaaaaaaaaaaaaaaaaaaaaaaaaaaaa  '') = 51 \<and>
   isValid (validateUserName (JStr (js ''aaaaaaaaaaaaaaaaaaaaaaaaaaaaaaaaaaaaaaaaaaaaaaaaa  '')))"
  by (simp add: validateUserName_def trim_def char_evals Let_def validNamePattern_def
        USER_NAME_MIN_LENGTH_def USER_NAME_MAX_LENGTH_def)

text \<open>
  C2, amended: \<open>validateUserName\<close> accepts a name string exactly when the name
  with leading and trailing whitespace removed has 1 to 50 characters, all of
  them in the class (ASCII letters, digits, whitespace, hyphen, underscore,
  apostrophe, period); whenever it rejects, the error list is not empty.
\<close>

theorem validateUserName_trimmed_bounds:
  "(isValid (validateUserName (JStr s)) \<longleftrightarrow>
      1 \<le> length (trim s) \<and> length (trim s) \<le> 50 \<and> list_all isNameChar (trim s)) \<and>
   (\<not> isValid (validateUserName (JStr s)) \<longrightarrow> errors (validateUserName (JStr s)) \<noteq> [])"
proof (cases "s = []")
  case True
  then show ?thesis by (simp add: validateUserName_def trim_Nil)
next
  case False
  have iff: "isValid (validateUserName (JStr s)) \<longleftrightarrow>
      1 \<le> length (trim s) \<and> length (trim s) \<le> 50 \<and> list_all isNameChar (trim s)"
    using False
    by (auto simp add: validateUserName_def Let_def validNamePattern_def
          USER_NAME_MIN_LENGTH_def USER_NAME_MAX_LENGTH_def Suc_le_eq)
  moreover have "\<not> isValid (validateUserName (JStr s)) \<longrightarrow> errors (validateUserName (JStr s)) \<noteq> []"
    using validateUserName_valid_iff_no_errors [of "JStr s"] by simp
  ultimately show ?thesis by simp
qed

theorem validateUserName_trimmed_bounds_witness:
  "isValid (validateUserName (JStr (js ''  Ada O'Neil-Smith_2.  '')))"
  using validateUserName_trimmed_bounds [of "js ''  Ada O'Neil-Smith_2.  ''"]
  by (simp add: trim_def char_evals)




text \<open>
  C9: on every request object, \<open>validateCreatePixelCardRequest\<close> evaluates the
  name and the image data independently and returns the violations of the name
  followed by the violations of the image data, whatever the first validation
  found; the request is valid exactly when both fields are.
\<close>

theorem validateCreatePixelCardRequest_aggregates:
  "errors (validateCreatePixelCardRequest (JObj fs)) =
     errors (validateUserName (get_prop (JObj fs) ''userName'')) @
     errors (validateImageData (get_prop (JObj fs) ''imageData'')) \<and>
   (isValid (validateCreatePixelCardRequest (JObj fs)) \<longleftrightarrow>
     isValid (validateUserName (get_prop (JObj fs) ''userName'')) \<and>
     isValid (validateImageData (get_prop (JObj fs) ''imageData'')))"
  using validateUserName_valid_iff_no_errors [of "get_prop (JObj fs) ''userName''"]
        validateImageData_valid_iff_no_errors [of "get_prop (JObj fs) ''imageData''"]
  by (auto simp add: validateCreatePixelCardRequest_def Let_def)

theorem validateCreatePixelCardRequest_aggregates_witness:
  "errors (validateCreatePixelCardRequest
     (JObj [(js ''userName'', JStr (js ''a#b'')),
            (js ''imageData'', JStr (js ''data:image/gif;base64,AAAA''))])) =
     [js ''User name contains invalid characters. Only letters, numbers, spaces, hyphens, underscores, apostrophes, and periods are allowed'',
      js ''Image data must be a valid PNG or JPEG in base64 format'']"
  using validateCreatePixelCardRequest_aggregates
    [of "[(js ''userName'', JStr (js ''a#b'')),
          (js ''imageData'', JStr (js ''data:image/gif;base64,AAAA''))]"]
  by (simp add: validateUserName_def validateImageData_def Let_def trim_def char_evals
       validNamePattern_def USER_NAME_MIN_LENGTH_def USER_NAME_MAX_LENGTH_def
       BASE64_IMAGE_PREFIX_PATTERN_def)

section \<open>Properties of the transformation layer\<close>

text \<open>
  C5: for every pair of pagination inputs, each a number or absent,
  \<open>validateAndNormalizePagination\<close> returns a page of at least 1 and a limit
  between 1 and 100; the page is 1 when the page is absent and the limit is 20
  when the limit is absent.
\<close>

theorem validateAndNormalizePagination_bounds:
  "js_le (Fin 1) (norm_page (validateAndNormalizePagination pg lm)) \<and>
   js_le (Fin 1) (norm_limit (validateAndNormalizePagination pg lm)) \<and>
   js_le (norm_limit (validateAndNormalizePagination pg lm)) (Fin 100) \<and>
   norm_page (validateAndNormalizePagination None lm) = Fin 1 \<and>
   norm_limit (validateAndNormalizePagination pg None) = Fin 20"
proof -
  have fl: "1 \<le> x \<Longrightarrow> (1::real) \<le> of_int \<lfloor>x\<rfloor>" for x :: real
    by simp
  have p: "js_le (Fin 1) (Math_max (Fin 1) (Math_floor (or_default pg (Fin 1))))"
  proof (cases pg)
    case None
    then show ?thesis by simp
  next
    case (Some n)
    then show ?thesis by (cases n) (auto simp: fl)
  qed
  have l: "js_le (Fin 1) (Math_min (Fin 100) (Math_max (Fin 1) (Math_floor (or_default lm (Fin 20))))) \<and>
           js_le (Math_min (Fin 100) (Math_max (Fin 1) (Math_floor (or_default lm (Fin 20))))) (Fin 100)"
  proof (cases lm)
    case None
    then show ?thesis by simp
  next
    case (Some n)
    then show ?thesis by (cases n) (auto simp: fl)
  qed
  show ?thesis
    using p l by (simp add: validateAndNormalizePagination_def Let_def)
qed

theorem validateAndNormalizePagination_bounds_witness:
  "validateAndNormalizePagination (Some (Fin (- 7 / 2))) (Some PosInf) =
     \<lparr>norm_page = Fin 1, norm_limit = Fin 100, norm_offset = Fin 0\<rparr> \<and>
   js_le (Fin 1) (Fin 1) \<and> js_le (Fin 1) (Fin 100) \<and> js_le (Fin 100) (Fin 100)"
  using validateAndNormalizePagination_bounds [of "Some (Fin (- 7 / 2))" "Some PosInf"]
  by (simp add: validateAndNormalizePagination_def Let_def js_sub_def)

text \<open>Splitting at commas, and the arithmetic of the size formula.\<close>

lemma split_on_not_Nil: "split_on sep s \<noteq> []"
  by (induction s) (auto split: list.split)

lemma split_on_no_sep: "sep \<notin> set s \<Longrightarrow> split_on sep s = [s]"
  by (induction s) auto

lemma split_on_append_sep:
  "sep \<notin> set p \<Longrightarrow> split_on sep (p @ sep # r) = p # split_on sep r"
  by (induction p) auto

lemma second_piece:
  "sep \<notin> set p \<Longrightarrow> sep \<notin> set r \<Longrightarrow> at_index (split_on sep (p @ sep # r)) 1 = Some r"
  by (simp add: split_on_append_sep split_on_no_sep at_index_def)

lemma floor_quarter: "\<lfloor>real n / 4\<rfloor> = int (n div 4)"
  using floor_divide_of_nat_eq [of n 4, where ?'a = real] by simp

lemma calculateBase64FileSize_content:
  "calculateBase64FileSize s =
     (case (if cu CHR '','' \<in> set s then at_index (split_on (cu CHR '','') s) 1 else Some s) of
        None \<Rightarrow> Inl TypeError
      | Some c \<Rightarrow> Inr (int (length c * 3 div 4) - int (length (filter (\<lambda>x. x = cu CHR ''='') c))))"
  by (simp only: calculateBase64FileSize_def Let_def floor_quarter)

lemma count_padding:
  "c \<notin> set body \<Longrightarrow> length (filter (\<lambda>x. x = c) (body @ replicate k c)) = k"
  by (induction body) auto

lemma calculateBase64FileSize_padded:
  assumes "cu CHR ''='' \<notin> set body" and "cu CHR '','' \<notin> set body"
  shows "calculateBase64FileSize (body @ replicate k (cu CHR ''='')) =
           Inr (int (length (body @ replicate k (cu CHR ''='')) * 3 div 4) - int k)"
proof -
  let ?p = "body @ replicate k (cu CHR ''='')"
  have ne: "cu CHR '','' \<noteq> cu CHR ''=''"
    by (simp add: cu_def)
  have nocomma: "cu CHR '','' \<notin> set ?p"
    using assms(2) ne by auto
  have pad: "length (filter (\<lambda>c. c = cu CHR ''='') ?p) = k"
    using assms(1) by (rule count_padding)
  show ?thesis
    by (simp only: calculateBase64FileSize_content nocomma pad if_False option.case)
qed

lemma calculateBase64FileSize_data_uri:
  assumes "cu CHR '','' \<notin> set pre" and "cu CHR '','' \<notin> set p"
  shows "calculateBase64FileSize (pre @ cu CHR '','' # p) = calculateBase64FileSize p"
proof -
  have snd: "at_index (split_on (cu CHR '','') (pre @ cu CHR '','' # p)) 1 = Some p"
    using assms by (rule second_piece)
  have inset: "cu CHR '','' \<in> set (pre @ cu CHR '','' # p)"
    by simp
  show ?thesis
    by (simp only: calculateBase64FileSize_content inset snd assms(2) if_True if_False)
qed

text \<open>
  C3: for a base64 string made of a body without \<open>=\<close> followed by \<open>k\<close> padding
  characters \<open>=\<close>, of length \<open>L\<close> in all, \<open>calculateBase64FileSize\<close> returns
  \<open>floor(L*3/4) - k\<close>, on the bare string and on the string behind a data-URI
  prefix and its comma alike; on the payload of
  \<open>data:image/png;base64,aGVsbG8=\<close> that is 5.
\<close>

theorem calculateBase64FileSize_formula:
  assumes "cu CHR ''='' \<notin> set body" and "cu CHR '','' \<notin> set body" and "cu CHR '','' \<notin> set pre"
  shows "calculateBase64FileSize (body @ replicate k (cu CHR ''='')) =
           Inr (int (length (body @ replicate k (cu CHR ''='')) * 3 div 4) - int k) \<and>
         calculateBase64FileSize (pre @ cu CHR '','' # body @ replicate k (cu CHR ''='')) =
           Inr (int (length (body @ replicate k (cu CHR ''='')) * 3 div 4) - int k)"
proof -
  let ?p = "body @ replicate k (cu CHR ''='')"
  have "cu CHR '','' \<noteq> cu CHR ''=''"
    by (simp add: cu_def)
  then have nocomma: "cu CHR '','' \<notin> set ?p"
    using assms(2) by auto
  have bare: "calculateBase64FileSize ?p = Inr (int (length ?p * 3 div 4) - int k)"
    using assms(1,2) by (rule calculateBase64FileSize_padded)
  have "calculateBase64FileSize (pre @ cu CHR '','' # ?p) = calculateBase64FileSize ?p"
    using assms(3) nocomma by (rule calculateBase64FileSize_data_uri)
  then show ?thesis using bare by simp
qed

theorem calculateBase64FileSize_formula_witness:
  "calculateBase64FileSize (js ''data:image/png;base64,aGVsbG8='') = Inr 5 \<and>
   calculateBase64FileSize (js ''aGVsbG8='') = Inr 5"
  using calculateBase64FileSize_formula
    [of "js ''aGVsbG8''" "js ''data:image/png;base64''" 1]
  by (simp add: js_def cu_def)

text \<open>
  C4: for every valid row whose two timestamps parse, \<open>transformRowToPixelCard\<close>
  gives an entity that holds all eight fields of the row (the timestamps as the
  parsed instants), and mapping that entity back to the row shape reproduces
  identifier, name, path, URL, byte size and MIME type exactly and the two
  timestamps as strings of the same instants, the runtime parsing what it has
  rendered.
\<close>

theorem row_entity_round_trip:
  assumes "validatePixelCardRow row"
    and "parse (created_at row) = Date tc" and "parse (updated_at row) = Date tu"
    and "parse (fmt tc) = Date tc" and "parse (fmt tu) = Date tu"
  shows "\<exists>pixelCard row'.
           transformRowToPixelCard parse row = Inr pixelCard \<and>
           pixelCard = \<lparr>card_id = row_id row, userName = user_name row,
                         imagePath = image_path row, imageUrl = image_url row,
                         createdAt = Date tc, updatedAt = Date tu,
                         fileSize = file_size row, mimeType = mime_type row\<rparr> \<and>
           entityToRow fmt pixelCard = Inr row' \<and>
           row_id row' = row_id row \<and>
           user_name row' = user_name row \<and>
           image_path row' = image_path row \<and>
           image_url row' = image_url row \<and>
           parse (created_at row') = parse (created_at row) \<and>
           parse (updated_at row') = parse (updated_at row) \<and>
           file_size row' = file_size row \<and>
           mime_type row' = mime_type row"
  using assms
  by (simp add: transformRowToPixelCard_def entityToRow_def toISOString_def)

theorem row_entity_round_trip_witness:
  "validatePixelCardRow example_row \<and>
   example_parse (created_at example_row) = Date 1704067200000 \<and>
   example_parse (updated_at example_row) = Date 1704067200000 \<and>
   example_parse (example_toISO 1704067200000) = Date 1704067200000 \<and>
   (\<exists>pixelCard row'.
      transformRowToPixelCard example_parse example_row = Inr pixelCard \<and>
      entityToRow example_toISO pixelCard = Inr row' \<and>
      row_id row' = example_uuid \<and>
      user_name row' = js ''Ada'' \<and>
      image_path row' = js ''2024/01/a.png'' \<and>
      image_url row' = js ''https://cdn.example/2024/01/a.png'' \<and>
      example_parse (created_at row') = Date 1704067200000 \<and>
      example_parse (updated_at row') = Date 1704067200000 \<and>
      file_size row' = Fin 5 \<and>
      mime_type row' = js ''image/png'')"
proof -
  have v: "validatePixelCardRow example_row"
    by (simp add: validatePixelCardRow_def example_row_def)
  have c: "example_parse (created_at example_row) = Date 1704067200000"
    and u: "example_parse (updated_at example_row) = Date 1704067200000"
    by (simp_all add: example_parse_def example_row_def)
  have q: "example_parse (example_toISO 1704067200000) = Date 1704067200000"
    by (simp add: example_parse_def example_toISO_def js_def cu_def)
  obtain pixelCard row' where r:
    "transformRowToPixelCard example_parse example_row = Inr pixelCard"
    "entityToRow example_toISO pixelCard = Inr row'"
    "row_id row' = row_id example_row" "user_name row' = user_name example_row"
    "image_path row' = image_path example_row" "image_url row' = image_url example_row"
    "example_parse (created_at row') = example_parse (created_at example_row)"
    "example_parse (updated_at row') = example_parse (updated_at example_row)"
    "file_size row' = file_size example_row" "mime_type row' = mime_type example_row"
    using row_entity_round_trip
      [where row = example_row and parse = example_parse and fmt = example_toISO
         and tc = 1704067200000 and tu = 1704067200000, OF v c u q q]
    by blast
  have f: "row_id example_row = example_uuid" "user_name example_row = js ''Ada''"
    "image_path example_row = js ''2024/01/a.png''"
    "image_url example_row = js ''https://cdn.example/2024/01/a.png''"
    "file_size example_row = Fin 5" "mime_type example_row = js ''image/png''"
    by (simp_all add: example_row_def)
  show ?thesis
    using v c u q r f by (intro conjI exI [of _ pixelCard] exI [of _ row']) simp_all
qed

section \<open>Properties of the repository\<close>

lemma example_uuid_valid: "isValidUUID example_uuid"
  by (simp add: example_uuid_def isValidUUID_def js_def cu_def isHexDigit_def)

text \<open>
  C1, as stated: a backend error other than not-found propagates out of
  \<open>pixelCardExists\<close> as a raised error.  The \<open>catch\<close> block of the function
  returns \<open>false\<close> for everything thrown inside it: with a well-formed
  identifier and a backend that answers with error code 503, the call returns
  \<open>false\<close>.
\<close>

theorem pixelCardExists_swallows_backend_error_counterexample:
  "isValidUUID example_uuid \<and>
   single_error (select_single_id backend_unavailable
                   (SingleQuery (js ''id'') (js ''id'') example_uuid)) =
     Some \<lparr>code = js ''503'', message = js ''unavailable''\<rparr> \<and>
   js ''503'' \<noteq> js ''PGRST116'' \<and>
   fst (pixelCardExists backend_unavailable example_uuid) = Inr False"
  using example_uuid_valid
  by (simp add: pixelCardExists_def pixelCardExists_try_def backend_unavailable_def Let_def
        js_def cu_def)

text \<open>
  C1, amended: \<open>pixelCardExists\<close> never raises.  It returns \<open>true\<close> exactly
  when the identifier is well-formed and the backend answers the lookup without
  error and with a row; it returns \<open>false\<close> for a malformed identifier (without
  a backend call), for a not-found answer, and for every other backend error.
\<close>

theorem pixelCardExists_never_raises:
  "fst (pixelCardExists be ident) =
     Inr (isValidUUID ident \<and>
          single_error (select_single_id be (SingleQuery (js ''id'') (js ''id'') ident)) = None \<and>
          single_data (select_single_id be (SingleQuery (js ''id'') (js ''id'') ident)) \<noteq> None) \<and>
   snd (pixelCardExists be ident) =
     (if isValidUUID ident then [SingleQuery (js ''id'') (js ''id'') ident] else [])"
  by (simp add: pixelCardExists_def pixelCardExists_try_def Let_def split: option.split)

theorem pixelCardExists_never_raises_witness:
  "fst (pixelCardExists (backend_with [example_row]) example_uuid) = Inr True \<and>
   fst (pixelCardExists (backend_with []) example_uuid) = Inr False"
  using pixelCardExists_never_raises [of "backend_with [example_row]" example_uuid]
        pixelCardExists_never_raises [of "backend_with []" example_uuid]
        example_uuid_valid
  by (simp add: backend_with_def)

text \<open>
  C7: \<open>getPixelCardById\<close> on an identifier that fails the UUID pattern raises
  \<open>Invalid pixel card ID format\<close> and has issued no query; on a well-formed
  identifier, a backend answer with the not-found code gives \<open>null\<close> and a
  backend answer with any other error is raised.
\<close>

theorem getPixelCardById_validates_first:
  "(\<not> isValidUUID ident \<longrightarrow>
      getPixelCardById parse be ident = (Inl (Error (js ''Invalid pixel card ID format'')), [])) \<and>
   (isValidUUID ident \<longrightarrow>
      single_error (select_single be (SingleQuery (js ''*'') (js ''id'') ident)) = Some e \<longrightarrow>
      fst (getPixelCardById parse be ident) =
        (if code e = js ''PGRST116'' then Inr None
         else Inl (Error (js ''Failed to fetch pixel card: '' @ message e))))"
  by (simp add: getPixelCardById_def getPixelCardById_try_def Let_def rethrow_def)

theorem getPixelCardById_validates_first_witness:
  "\<not> isValidUUID (js ''not-a-uuid'') \<and>
   getPixelCardById example_parse backend_unavailable (js ''not-a-uuid'') =
     (Inl (Error (js ''Invalid pixel card ID format'')), []) \<and>
   isValidUUID example_uuid \<and>
   fst (getPixelCardById example_parse (backend_with []) example_uuid) = Inr None \<and>
   fst (getPixelCardById example_parse backend_unavailable example_uuid) =
     Inl (Error (js ''Failed to fetch pixel card: unavailable''))"
proof -
  have bad: "\<not> isValidUUID (js ''not-a-uuid'')"
    by (simp add: isValidUUID_def js_def)
  have nf: "single_error (select_single (backend_with []) (SingleQuery (js ''*'') (js ''id'') example_uuid))
      = Some \<lparr>code = js ''PGRST116'', message = js ''no rows''\<rparr>"
    by (simp add: backend_with_def)
  have un: "single_error (select_single backend_unavailable (SingleQuery (js ''*'') (js ''id'') example_uuid))
      = Some \<lparr>code = js ''503'', message = js ''unavailable''\<rparr>"
    by (simp add: backend_unavailable_def)
  show ?thesis
    using bad example_uuid_valid
      getPixelCardById_validates_first
        [where ident = "js ''not-a-uuid''" and parse = example_parse and be = backend_unavailable]
      getPixelCardById_validates_first
        [where ident = example_uuid and parse = example_parse and be = "backend_with []"] nf
      getPixelCardById_validates_first
        [where ident = example_uuid and parse = example_parse and be = backend_unavailable] un
    by (simp add: js_def cu_def)
qed

text \<open>
  C6: when the backend counts zero rows, \<open>getAllPixelCards\<close> with page 1 and
  limit 12 returns the empty list with pagination \<open>(1, 12, 0, 0)\<close>, raises
  nothing, and has issued the count query only.  When the backend counts rows,
  a second query asks for them by \<open>created_at\<close> descending, and the items
  returned are the rows of its answer, in its order: sorted by creation time
  descending as the answer is.
\<close>

theorem getAllPixelCards_empty_and_ordered:
  "(count_error (select_count be CountQuery) = None \<longrightarrow>
    count (select_count be CountQuery) = Some 0 \<longrightarrow>
      getAllPixelCards be \<lparr>params_page = Some (Fin 1), params_limit = Some (Fin 12)\<rparr> =
        (Inr \<lparr>pixelCards = [],
              pagination = \<lparr>page = Fin 1, limit = Fin 12, total = Fin 0, totalPages = Fin 0\<rparr>\<rparr>,
         [CountQuery])) \<and>
   (count_error (select_count be CountQuery) = None \<longrightarrow>
    count (select_count be CountQuery) = Some n \<longrightarrow> 0 < n \<longrightarrow>
      (\<exists>lo hi.
         snd (getAllPixelCards be params) = [CountQuery, RangeQuery (js ''created_at'') False lo hi] \<and>
         (\<forall>g. fst (getAllPixelCards be params) = Inr g \<longrightarrow>
            pixelCards g =
              map PixelCardRepository_transformRowToResponse
                  (or_empty (rows_data (select_rows be (RangeQuery (js ''created_at'') False lo hi)))) \<and>
            (\<forall>instant :: jsstring \<Rightarrow> int.
               sorted_wrt (\<lambda>a b. instant (created_at b) \<le> instant (created_at a))
                 (or_empty (rows_data (select_rows be (RangeQuery (js ''created_at'') False lo hi)))) \<longrightarrow>
               sorted_wrt (\<lambda>a b. instant (resp_createdAt b) \<le> instant (resp_createdAt a))
                 (pixelCards g)))))"
proof (intro conjI impI)
  assume "count_error (select_count be CountQuery) = None"
    and "count (select_count be CountQuery) = Some 0"
  then show "getAllPixelCards be \<lparr>params_page = Some (Fin 1), params_limit = Some (Fin 12)\<rparr> =
        (Inr \<lparr>pixelCards = [],
              pagination = \<lparr>page = Fin 1, limit = Fin 12, total = Fin 0, totalPages = Fin 0\<rparr>\<rparr>,
         [CountQuery])"
    by (simp add: getAllPixelCards_def getAllPixelCards_try_def Let_def
          DEFAULT_PAGE_SIZE_def MAX_PAGE_SIZE_def)
next
  assume ce: "count_error (select_count be CountQuery) = None"
    and c: "count (select_count be CountQuery) = Some n" and n: "0 < n"
  define pg where "pg = Math_max (Fin 1) (or_default (params_page params) (Fin 1))"
  define lm where "lm = Math_min (Math_max (Fin 1) (or_default (params_limit params) DEFAULT_PAGE_SIZE)) MAX_PAGE_SIZE"
  define lo where "lo = js_mul (js_sub pg (Fin 1)) lm"
  define hi where "hi = js_sub (js_add lo lm) (Fin 1)"
  define rows where "rows = or_empty (rows_data (select_rows be (RangeQuery (js ''created_at'') False lo hi)))"
  have run: "getAllPixelCards_try be params =
      (case rows_error (select_rows be (RangeQuery (js ''created_at'') False lo hi)) of
         Some error \<Rightarrow> (Inl (Error (js ''Failed to fetch pixel cards: '' @ message error)),
                        [CountQuery, RangeQuery (js ''created_at'') False lo hi])
       | None \<Rightarrow> (Inr \<lparr>pixelCards = map PixelCardRepository_transformRowToResponse rows,
                       pagination = \<lparr>page = pg, limit = lm, total = Fin (real n),
                                     totalPages = Math_ceil (js_div (Fin (real n)) lm)\<rparr>\<rparr>,
                  [CountQuery, RangeQuery (js ''created_at'') False lo hi]))"
    using ce c n
    by (simp add: getAllPixelCards_try_def Let_def pg_def lm_def lo_def hi_def rows_def
          split: option.split)
  have qs: "snd (getAllPixelCards be params) = [CountQuery, RangeQuery (js ''created_at'') False lo hi]"
    by (simp add: getAllPixelCards_def run split: option.split)
  have res: "pixelCards g = map PixelCardRepository_transformRowToResponse rows"
    if "fst (getAllPixelCards be params) = Inr g" for g
    using that by (auto simp add: getAllPixelCards_def run split: option.splits)
  have ord: "sorted_wrt (\<lambda>a b. instant (resp_createdAt b) \<le> instant (resp_createdAt a))
        (map PixelCardRepository_transformRowToResponse rows)"
    if "sorted_wrt (\<lambda>a b. instant (created_at b) \<le> instant (created_at a)) rows"
    for instant :: "jsstring \<Rightarrow> int"
    using that by (simp add: sorted_wrt_map PixelCardRepository_transformRowToResponse_def)
  show "\<exists>lo hi.
         snd (getAllPixelCards be params) = [CountQuery, RangeQuery (js ''created_at'') False lo hi] \<and>
         (\<forall>g. fst (getAllPixelCards be params) = Inr g \<longrightarrow>
            pixelCards g =
              map PixelCardRepository_transformRowToResponse
                  (or_empty (rows_data (select_rows be (RangeQuery (js ''created_at'') False lo hi)))) \<and>
            (\<forall>instant :: jsstring \<Rightarrow> int.
               sorted_wrt (\<lambda>a b. instant (created_at b) \<le> instant (created_at a))
                 (or_empty (rows_data (select_rows be (RangeQuery (js ''created_at'') False lo hi)))) \<longrightarrow>
               sorted_wrt (\<lambda>a b. instant (resp_createdAt b) \<le> instant (resp_createdAt a))
                 (pixelCards g)))"
  proof (rule exI [of _ lo], rule exI [of _ hi], intro conjI allI impI)
    show "snd (getAllPixelCards be params) = [CountQuery, RangeQuery (js ''created_at'') False lo hi]"
      by (rule qs)
  next
    fix g assume "fst (getAllPixelCards be params) = Inr g"
    then show "pixelCards g =
              map PixelCardRepository_transformRowToResponse
                  (or_empty (rows_data (select_rows be (RangeQuery (js ''created_at'') False lo hi))))"
      using res by (simp add: rows_def)
  next
    fix g and instant :: "jsstring \<Rightarrow> int"
    assume g: "fst (getAllPixelCards be params) = Inr g"
      and "sorted_wrt (\<lambda>a b. instant (created_at b) \<le> instant (created_at a))
                 (or_empty (rows_data (select_rows be (RangeQuery (js ''created_at'') False lo hi))))"
    then have "sorted_wrt (\<lambda>a b. instant (created_at b) \<le> instant (created_at a)) rows"
      by (simp add: rows_def)
    then show "sorted_wrt (\<lambda>a b. instant (resp_createdAt b) \<le> instant (resp_createdAt a))
                 (pixelCards g)"
      using ord res [OF g] by simp
  qed
qed

theorem getAllPixelCards_empty_and_ordered_witness:
  "getAllPixelCards (backend_with []) \<lparr>params_page = Some (Fin 1), params_limit = Some (Fin 12)\<rparr> =
     (Inr \<lparr>pixelCards = [],
           pagination = \<lparr>page = Fin 1, limit = Fin 12, total = Fin 0, totalPages = Fin 0\<rparr>\<rparr>,
      [CountQuery]) \<and>
   getAllPixelCards (backend_with [example_row_newer, example_row])
       \<lparr>params_page = Some (Fin 1), params_limit = Some (Fin 12)\<rparr> =
     (Inr \<lparr>pixelCards = [PixelCardRepository_transformRowToResponse example_row_newer,
                          PixelCardRepository_transformRowToResponse example_row],
           pagination = \<lparr>page = Fin 1, limit = Fin 12, total = Fin 2, totalPages = Fin 1\<rparr>\<rparr>,
      [CountQuery, RangeQuery (js ''created_at'') False (Fin 0) (Fin 11)])"
proof -
  have e: "count_error (select_count (backend_with []) CountQuery) = None"
          "count (select_count (backend_with []) CountQuery) = Some 0"
    by (simp_all add: backend_with_def)
  have t: "count_error (select_count (backend_with [example_row_newer, example_row]) CountQuery) = None"
          "count (select_count (backend_with [example_row_newer, example_row]) CountQuery) = Some 2"
          "(0::nat) < 2"
    by (simp_all add: backend_with_def)
  have ceil: "\<lceil>(1::real) / 6\<rceil> = 1"
    by (simp add: ceiling_eq_iff)
  show ?thesis
    using getAllPixelCards_empty_and_ordered [where be = "backend_with []"] e
      getAllPixelCards_empty_and_ordered
        [where be = "backend_with [example_row_newer, example_row]" and n = 2
           and params = "\<lparr>params_page = Some (Fin 1), params_limit = Some (Fin 12)\<rparr>"] t
    by (simp add: getAllPixelCards_def getAllPixelCards_try_def Let_def backend_with_def
          DEFAULT_PAGE_SIZE_def MAX_PAGE_SIZE_def js_sub_def or_empty_def ceil)
qed


section \<open>Properties of the upload service\<close>

text \<open>The decoder: what it returns on padded base64, and how long its output can be.\<close>

lemma length_decode_sextets: "length (decode_sextets xs) = length xs * 3 div 4"
  by (induction xs rule: decode_sextets.induct) simp_all

lemma isBase64Char_not_special:
  "isBase64Char c \<Longrightarrow> \<not> isAsciiWhitespace c \<and> c \<noteq> cu CHR ''='' \<and> c \<noteq> cu CHR '',''"
  by (auto simp add: isBase64Char_def isAlnum_def isAsciiWhitespace_def cu_def)

lemma js_padding: "js ''='' = [cu CHR ''='']" "js ''=='' = [cu CHR ''='', cu CHR ''='']"
  by (simp_all add: js_def)

lemma base64Pattern_split:
  assumes "base64Pattern p"
  obtains body k where "p = body @ replicate k (cu CHR ''='')" and "list_all isBase64Char body"
    and "k \<le> 2"
proof -
  let ?body = "takeWhile isBase64Char p" and ?rest = "dropWhile isBase64Char p"
  have b: "list_all isBase64Char ?body"
    unfolding list_all_iff using set_takeWhileD by fast
  from assms have r: "?rest = [] \<or> ?rest = js ''='' \<or> ?rest = js ''==''"
    by (simp add: base64Pattern_def Let_def)
  have "\<exists>k\<le>2. ?rest = replicate k (cu CHR ''='')"
  proof -
    { assume "?rest = []"
      then have "0 \<le> (2::nat) \<and> ?rest = replicate 0 (cu CHR ''='')" by simp }
    moreover
    { assume "?rest = js ''=''"
      then have "1 \<le> (2::nat) \<and> ?rest = replicate 1 (cu CHR ''='')"
        by (simp add: js_padding) }
    moreover
    { assume "?rest = js ''==''"
      then have "2 \<le> (2::nat) \<and> ?rest = replicate 2 (cu CHR ''='')"
        by (simp add: js_padding numeral_2_eq_2) }
    ultimately show ?thesis using r by blast
  qed
  then obtain k where k: "k \<le> 2" and rest: "?rest = replicate k (cu CHR ''='')"
    by blast
  have "p = ?body @ ?rest" by simp
  then have "p = ?body @ replicate k (cu CHR ''='')"
    by (simp only: rest)
  then show thesis using b k by (rule that)
qed

lemma filter_whitespace_base64:
  assumes "list_all isBase64Char body"
  shows "filter (\<lambda>c. \<not> isAsciiWhitespace c) (body @ replicate k (cu CHR ''='')) =
         body @ replicate k (cu CHR ''='')"
proof (rule filter_True, rule ballI)
  fix c assume "c \<in> set (body @ replicate k (cu CHR ''=''))"
  then have "isBase64Char c \<or> c = cu CHR ''=''"
    using assms by (auto simp add: list_all_iff)
  then show "\<not> isAsciiWhitespace c"
    using isBase64Char_not_special [of c] by (auto simp add: isAsciiWhitespace_def cu_def)
qed

lemma no_padding_in_body:
  "list_all isBase64Char body \<Longrightarrow> cu CHR ''='' \<notin> set body \<and> cu CHR '','' \<notin> set body"
  using isBase64Char_not_special by (auto simp add: list_all_iff)

lemma strip_padding_one:
  assumes "cu CHR ''='' \<notin> set body" and "length (body @ [cu CHR ''='']) mod 4 = 0"
  shows "strip_padding (body @ [cu CHR ''='']) = body"
proof -
  let ?e = "cu CHR ''=''"
  have f1: "\<not> suffix (js ''=='') (body @ [?e])"
  proof
    assume "suffix (js ''=='') (body @ [?e])"
    then have "suffix ([?e] @ [?e]) (body @ [?e])"
      by (simp only: js_padding append_Cons append_Nil)
    then have "suffix [?e] body"
      by (simp only: same_suffix_suffix)
    then have "?e \<in> set body"
      using set_mono_suffix by fastforce
    then show False using assms(1) by contradiction
  qed
  have f2: "suffix (js ''='') (body @ [?e])"
    by (simp only: js_padding suffix_appendI suffix_order.refl)
  have "strip_padding (body @ [?e]) = take (length (body @ [?e]) - 1) (body @ [?e])"
    unfolding strip_padding_def using assms(2) f1 f2 by (simp only: if_True if_False simp_thms)
  then show ?thesis by simp
qed

lemma strip_padding_two:
  assumes "length (body @ [cu CHR ''='', cu CHR ''='']) mod 4 = 0"
  shows "strip_padding (body @ [cu CHR ''='', cu CHR ''='']) = body"
proof -
  let ?e = "cu CHR ''=''"
  have f: "suffix (js ''=='') (body @ [?e, ?e])"
    by (simp only: js_padding suffix_appendI suffix_order.refl)
  have "strip_padding (body @ [?e, ?e]) = take (length (body @ [?e, ?e]) - 2) (body @ [?e, ?e])"
    unfolding strip_padding_def using assms f by (simp only: if_True simp_thms)
  then show ?thesis by simp
qed

lemma strip_padding_other:
  "length d mod 4 \<noteq> 0 \<Longrightarrow> strip_padding d = d"
  by (simp add: strip_padding_def)



lemma atob_padded:
  assumes body: "list_all isBase64Char body" and k: "k = 1 \<or> k = 2"
    and dec: "atob (body @ replicate k (cu CHR ''='')) = Some bytes"
  shows "length (body @ replicate k (cu CHR ''='')) mod 4 = 0 \<and>
         length bytes = length body * 3 div 4"
proof -
  let ?p = "body @ replicate k (cu CHR ''='')"
  have noeq: "cu CHR ''='' \<notin> set body"
    using body no_padding_in_body by blast
  have flt: "filter (\<lambda>c. \<not> isAsciiWhitespace c) ?p = ?p"
    using body by (rule filter_whitespace_base64)
  have "cu CHR ''='' \<in> set ?p"
    using k by auto
  moreover have "\<not> isBase64Char (cu CHR ''='')"
    by (simp add: isBase64Char_def isAlnum_def cu_def)
  ultimately have bad: "\<not> list_all isBase64Char ?p"
    unfolding list_all_iff by blast
  have m: "length ?p mod 4 = 0"
  proof (rule ccontr)
    assume "length ?p mod 4 \<noteq> 0"
    then have "strip_padding ?p = ?p" by (rule strip_padding_other)
    then have "atob ?p = None"
      unfolding atob_def Let_def flt using bad by simp
    then show False using dec by simp
  qed
  have sp: "strip_padding ?p = body"
    using k
  proof
    assume "k = 1"
    then show ?thesis using strip_padding_one [OF noeq] m by simp
  next
    assume "k = 2"
    then show ?thesis using strip_padding_two [of body] m by (simp add: numeral_2_eq_2)
  qed
  have "bytes = decode_sextets (map sextet body)"
    using dec unfolding atob_def Let_def flt sp by (simp split: if_splits)
  then show ?thesis
    using m by (simp add: length_decode_sextets)
qed


lemma atob_padded_decodes:
  assumes body: "list_all isBase64Char body" and k: "k = 1 \<or> k = 2"
    and m: "length (body @ replicate k (cu CHR ''='')) mod 4 = 0"
  shows "atob (body @ replicate k (cu CHR ''='')) = Some (decode_sextets (map sextet body))"
proof -
  let ?p = "body @ replicate k (cu CHR ''='')"
  have noeq: "cu CHR ''='' \<notin> set body"
    using body no_padding_in_body by blast
  have flt: "filter (\<lambda>c. \<not> isAsciiWhitespace c) ?p = ?p"
    using body by (rule filter_whitespace_base64)
  have sp: "strip_padding ?p = body"
    using k
  proof
    assume "k = 1"
    then show ?thesis using strip_padding_one [OF noeq] m by simp
  next
    assume "k = 2"
    then show ?thesis using strip_padding_two [of body] m by (simp add: numeral_2_eq_2)
  qed
  have "length body mod 4 \<noteq> 1"
    using k m by (auto simp add: numeral_2_eq_2) presburger+
  then show ?thesis
    unfolding atob_def Let_def flt sp using body by simp
qed


lemma validateImageData_wellformed:
  assumes pre: "BASE64_IMAGE_PREFIX_PATTERN s"
    and pay: "at_index (split_on (cu CHR '','') s) 1 = Some payload"
    and ne: "payload \<noteq> []" and pat: "base64Pattern payload"
  shows "validateImageData (JStr s) =
           (if estimatedSize payload > real IMAGE_MAX_SIZE_BYTES
            then \<lparr>isValid = False, errors = [js ''Image size exceeds maximum limit of 10MB'']\<rparr>
            else \<lparr>isValid = True, errors = []\<rparr>)"
proof -
  have "s \<noteq> []"
    using pre by (auto simp add: BASE64_IMAGE_PREFIX_PATTERN_def js_def)
  then show ?thesis
    using pre pay ne pat by (simp add: validateImageData_def Let_def)
qed

lemma three_quarters_padded:
  fixes b k :: nat
  assumes "(b + k) mod 4 = 0" and "k = 1 \<or> k = 2"
  shows "int ((b + k) * 3 div 4) - int k = int (b * 3 div 4)"
    and "real (b + k) * 3 / 4 = real (b * 3 div 4) + real k"
proof -
  from assms(1) obtain m where m: "b + k = 4 * m"
    by (auto simp add: mod_eq_0_iff_dvd)
  have d: "b * 3 div 4 + k = 3 * m"
    using assms(2) m by auto
  have q: "(b + k) * 3 div 4 = 3 * m"
    using m by simp
  show "int ((b + k) * 3 div 4) - int k = int (b * 3 div 4)"
    using d q by linarith
  have "real (b + k) * 3 / 4 = real (3 * m)"
    using m by simp
  also have "\<dots> = real (b * 3 div 4 + k)"
    by (simp only: d)
  finally show "real (b + k) * 3 / 4 = real (b * 3 div 4) + real k"
    by simp
qed

lemma data_uri_prefix: "js ''data:image/png;base64,'' = js ''data:image/png;base64'' @ [cu CHR '','']"
  by (simp add: js_def)

lemma comma_not_in_prefix: "cu CHR '','' \<notin> set (js ''data:image/png;base64'')"
  by (simp add: js_def cu_def)

lemma base64_run: "list_all isBase64Char (replicate n (cu CHR ''A''))"
  by (simp add: list_all_iff isBase64Char_def isAlnum_def cu_def)

lemma base64Pattern_padded:
  assumes "list_all isBase64Char body" and "k \<le> 2"
  shows "base64Pattern (body @ replicate k (cu CHR ''=''))"
proof -
  have ne: "\<not> isBase64Char (cu CHR ''='')"
    by (simp add: isBase64Char_def isAlnum_def cu_def)
  have "dropWhile isBase64Char (body @ replicate k (cu CHR ''='')) =
        dropWhile isBase64Char (replicate k (cu CHR ''=''))"
    using assms(1) by (simp add: list_all_iff)
  also have "\<dots> = replicate k (cu CHR ''='')"
    using ne by (cases k) simp_all
  finally have d: "dropWhile isBase64Char (body @ replicate k (cu CHR ''='')) =
      replicate k (cu CHR ''='')" .
  from assms(2) have "k = 0 \<or> k = 1 \<or> k = 2" by arith
  then have "replicate k (cu CHR ''='') = [] \<or> replicate k (cu CHR ''='') = js ''='' \<or>
      replicate k (cu CHR ''='') = js ''==''"
    by (auto simp add: js_padding numeral_2_eq_2)
  then show ?thesis
    unfolding base64Pattern_def Let_def d .
qed

lemma padded_second_piece:
  assumes "list_all isBase64Char body"
  shows "at_index (split_on (cu CHR '','')
           (js ''data:image/png;base64,'' @ body @ replicate k (cu CHR ''=''))) 1 =
         Some (body @ replicate k (cu CHR ''=''))"
proof -
  have "cu CHR '','' \<notin> set (body @ replicate k (cu CHR ''=''))"
    using assms no_padding_in_body [of body] by (auto simp add: cu_def)
  then show ?thesis
    using second_piece [OF comma_not_in_prefix, of "body @ replicate k (cu CHR ''='')"]
    by (simp add: data_uri_prefix)
qed

lemma png_prefix_matches: "BASE64_IMAGE_PREFIX_PATTERN (js ''data:image/png;base64,'' @ rest)"
  by (simp add: BASE64_IMAGE_PREFIX_PATTERN_def)


lemma ceiling_sized_payload_decodes:
  "atob ceiling_sized_payload = Some (decode_sextets (map sextet (replicate 13981014 (cu CHR ''A''))))"
  unfolding ceiling_sized_payload_def js_padding
  using atob_padded_decodes [OF base64_run, of 2 13981014] by (simp add: numeral_2_eq_2)

text \<open>
  C10: the size check of \<open>validateImageData\<close> takes \<open>L*3/4\<close> as the size and
  does not subtract the padding.  For every payload that matches its base64
  pattern, decodes, and has \<open>k \<ge> 1\<close> padding characters,
  \<open>calculateBase64FileSize\<close> is the exact decoded size and the estimate is
  larger by exactly \<open>k\<close>.  So a data URI exists whose payload decodes to exactly
  the ceiling of \<open>10 * 1024 * 1024\<close> bytes and which \<open>validateImageData\<close> rejects
  as oversized.
\<close>

theorem validateImageData_estimate_exceeds_by_padding:
  "(base64Pattern p \<longrightarrow> atob p = Some bytes \<longrightarrow>
    k = length (filter (\<lambda>c. c = cu CHR ''='') p) \<longrightarrow> 1 \<le> k \<longrightarrow>
      calculateBase64FileSize p = Inr (int (length bytes)) \<and>
      estimatedSize p = real (length bytes) + real k) \<and>
   (\<exists>decoded. atob ceiling_sized_payload = Some decoded \<and>
      length decoded = IMAGE_MAX_SIZE_BYTES \<and>
      validateImageData (JStr ceiling_sized_uri) =
        \<lparr>isValid = False, errors = [js ''Image size exceeds maximum limit of 10MB'']\<rparr>)"
proof (intro conjI impI)
  assume pat: "base64Pattern p" and dec: "atob p = Some bytes"
    and k: "k = length (filter (\<lambda>c. c = cu CHR ''='') p)" and k1: "1 \<le> k"
  from pat obtain body j where p: "p = body @ replicate j (cu CHR ''='')"
    and body: "list_all isBase64Char body" and j: "j \<le> 2"
    by (rule base64Pattern_split)
  have noeq: "cu CHR ''='' \<notin> set body" and nocomma: "cu CHR '','' \<notin> set body"
    using body no_padding_in_body by blast+
  have "k = j"
    unfolding k p using noeq by (rule count_padding)
  then have jk: "j = k" and k12: "k = 1 \<or> k = 2"
    using j k1 by auto
  have m: "length (body @ replicate k (cu CHR ''='')) mod 4 = 0"
    and len: "length bytes = length body * 3 div 4"
    using atob_padded [OF body k12] dec unfolding p jk by blast+
  have m': "(length body + k) mod 4 = 0"
    using m by simp
  have "calculateBase64FileSize p = Inr (int ((length body + k) * 3 div 4) - int k)"
    unfolding p jk using calculateBase64FileSize_padded [OF noeq nocomma, of k] by simp
  then show "calculateBase64FileSize p = Inr (int (length bytes))"
    using three_quarters_padded(1) [OF m' k12] len by simp
  have "estimatedSize p = real (length body + k) * 3 / 4"
    unfolding p jk by (simp add: estimatedSize_def)
  then show "estimatedSize p = real (length bytes) + real k"
    using three_quarters_padded(2) [OF m' k12] len by simp
next
  let ?decoded = "decode_sextets (map sextet (replicate 13981014 (cu CHR ''A'')))"
  have len: "length ?decoded = IMAGE_MAX_SIZE_BYTES"
    by (simp add: length_decode_sextets IMAGE_MAX_SIZE_BYTES_def)
  have pay: "at_index (split_on (cu CHR '','') ceiling_sized_uri) 1 = Some ceiling_sized_payload"
    using padded_second_piece [OF base64_run, of 13981014 2]
    by (simp add: ceiling_sized_uri_def ceiling_sized_payload_def js_padding numeral_2_eq_2)
  have pre: "BASE64_IMAGE_PREFIX_PATTERN ceiling_sized_uri"
    by (simp add: ceiling_sized_uri_def png_prefix_matches)
  have pat: "base64Pattern ceiling_sized_payload"
    using base64Pattern_padded [OF base64_run, of 2 13981014]
    by (simp add: ceiling_sized_payload_def js_padding numeral_2_eq_2)
  have img: "validateImageData (JStr ceiling_sized_uri) =
      \<lparr>isValid = False, errors = [js ''Image size exceeds maximum limit of 10MB'']\<rparr>"
    using validateImageData_wellformed [OF pre pay _ pat]
    by (simp add: ceiling_sized_payload_def estimatedSize_def IMAGE_MAX_SIZE_BYTES_def)
  show "\<exists>decoded. atob ceiling_sized_payload = Some decoded \<and>
      length decoded = IMAGE_MAX_SIZE_BYTES \<and>
      validateImageData (JStr ceiling_sized_uri) =
        \<lparr>isValid = False, errors = [js ''Image size exceeds maximum limit of 10MB'']\<rparr>"
    using ceiling_sized_payload_decodes len img by blast
qed

theorem validateImageData_estimate_exceeds_by_padding_witness:
  "base64Pattern (js ''aGVsbG8='') \<and>
   atob (js ''aGVsbG8='') = Some [104, 101, 108, 108, 111] \<and>
   length (filter (\<lambda>c. c = cu CHR ''='') (js ''aGVsbG8='')) = 1 \<and>
   calculateBase64FileSize (js ''aGVsbG8='') = Inr 5 \<and>
   estimatedSize (js ''aGVsbG8='') = 6"
proof -
  have pat: "base64Pattern (js ''aGVsbG8='')"
    by (simp add: base64Pattern_def Let_def char_evals)
  have dec: "atob (js ''aGVsbG8='') = Some [104, 101, 108, 108, 111]"
    by (simp add: atob_def strip_padding_def Let_def char_evals isAsciiWhitespace_def
          sextet_def suffix_def)
  have k: "length (filter (\<lambda>c. c = cu CHR ''='') (js ''aGVsbG8='')) = 1"
    by (simp add: js_def cu_def)
  show ?thesis
    using validateImageData_estimate_exceeds_by_padding
      [of "js ''aGVsbG8=''" "[104, 101, 108, 108, 111]" 1] pat dec k
    by simp
qed









end
